theory Spec2Isabelle
  imports Main "HOL-Library.AList"
begin

section \<open>Python objects, classes and exceptions\<close>

text \<open>
  A class is described by its name, the names of its proper ancestors (the rest of its
  method resolution order) and the markers that the validation libraries leave on it:
  whether it was built by \<^verbatim>\<open>pydantic.dataclasses.dataclass\<close>, by the standard
  \<^verbatim>\<open>dataclasses.dataclass\<close>, or by \<^verbatim>\<open>attrs\<close>; and the names of its declared
  fields. Subclasses of \<^verbatim>\<open>BaseModel\<close>, \<^verbatim>\<open>Struct\<close>, \<^verbatim>\<open>HTTPException\<close>,
  \<^verbatim>\<open>Headers\<close> and of the exception classes are recognised by the ancestor names.
\<close>

record pyclass =
  cls_name :: string
  cls_bases :: "string list"
  cls_pydantic_dataclass :: bool
  cls_dataclass :: bool
  cls_attrs :: bool
  cls_fields :: "string list"

definition plain_class :: "string \<Rightarrow> string list \<Rightarrow> pyclass" where
  "plain_class n bs =
     \<lparr>cls_name = n, cls_bases = bs, cls_pydantic_dataclass = False,
      cls_dataclass = False, cls_attrs = False, cls_fields = []\<rparr>"

definition mro :: "pyclass \<Rightarrow> string list" where
  "mro c = cls_name c # cls_bases c"

text \<open>
  Values: the JSON-like builtins, tuples, class objects, and instances of user classes
  with their attribute values. A dict is an association list in insertion order.
\<close>

datatype pyval =
    PNone
  | PBool bool
  | PInt int
  | PStr string
  | PList "pyval list"
  | PTuple "pyval list"
  | PDict "(pyval \<times> pyval) list"
  | PClass pyclass
  | PObj pyclass "(string \<times> pyval) list"

fun type_of :: "pyval \<Rightarrow> pyclass" where
  "type_of PNone = plain_class ''NoneType'' [''object'']"
| "type_of (PBool b) = plain_class ''bool'' [''int'', ''object'']"
| "type_of (PInt i) = plain_class ''int'' [''object'']"
| "type_of (PStr s) = plain_class ''str'' [''object'']"
| "type_of (PList xs) = plain_class ''list'' [''object'']"
| "type_of (PTuple xs) = plain_class ''tuple'' [''object'']"
| "type_of (PDict kvs) = plain_class ''dict'' [''object'']"
| "type_of (PClass c) = plain_class ''type'' [''object'']"
| "type_of (PObj c attrs) = c"

text \<open>\<^verbatim>\<open>isinstance(v, (A, B, ...))\<close> and \<^verbatim>\<open>issubclass(c, A)\<close>, by class name.\<close>

definition issubclass :: "pyclass \<Rightarrow> string \<Rightarrow> bool" where
  "issubclass c n = (n \<in> set (mro c))"

definition isinstance :: "pyval \<Rightarrow> string list \<Rightarrow> bool" where
  "isinstance v ns = list_ex (issubclass (type_of v)) ns"

text \<open>
  An exception instance: its class and its constructor arguments, which in this program
  are nothing, a message, or one other exception (\<^verbatim>\<open>exception_class(error)\<close>).
\<close>

datatype 'e exc_args = NoArgs | Msg string | Wrapped 'e

datatype pyexn = Raised (exc_class: pyclass) (exc_args: "pyexn exc_args")

definition TypeError :: pyclass where
  "TypeError = plain_class ''TypeError'' [''Exception'', ''BaseException'', ''object'']"

definition ValueError :: pyclass where
  "ValueError = plain_class ''ValueError'' [''Exception'', ''BaseException'', ''object'']"

definition UnboundLocalError :: pyclass where
  "UnboundLocalError =
     plain_class ''UnboundLocalError'' [''NameError'', ''Exception'', ''BaseException'', ''object'']"

text \<open>Whether an \<^verbatim>\<open>except (A, B, ...)\<close> clause catches the exception.\<close>

definition caught_by :: "pyexn \<Rightarrow> string list \<Rightarrow> bool" where
  "caught_by e ns = list_ex (issubclass (exc_class e)) ns"

section \<open>The validation backends\<close>

text \<open>
  \<^verbatim>\<open>conversion.py\<close> imports pydantic, msgspec, attrs and humps; where an import fails
  it installs stubs and records the fact in \<^verbatim>\<open>PYDANTIC_INSTALLED\<close> and
  \<^verbatim>\<open>MSGSPEC_INSTALLED\<close>. The library routines are parameters of the model: each may
  return a value or raise.
\<close>

record env =
  PYDANTIC_INSTALLED :: bool
  MSGSPEC_INSTALLED :: bool
  rootmodel_model_dump :: "pyval \<Rightarrow> pyexn + pyval"
  basemodel_model_dump :: "pyval \<Rightarrow> bool \<Rightarrow> pyexn + pyval"
  typeadapter_dump_python :: "pyval \<Rightarrow> pyexn + pyval"
  typeadapter_validate_python :: "pyclass \<Rightarrow> pyval \<Rightarrow> pyexn + pyval"
  to_builtins :: "pyval \<Rightarrow> pyexn + pyval"
  convert :: "pyval \<Rightarrow> pyclass \<Rightarrow> pyexn + pyval"
  humps_camelize :: "pyval \<Rightarrow> pyval"
  humps_kebabize :: "pyval \<Rightarrow> pyval"
  humps_decamelize :: "pyval \<Rightarrow> pyval"
  construct :: "pyclass \<Rightarrow> (string \<times> pyval) list \<Rightarrow> pyexn + pyval"
  dataclasses_asdict :: "pyval \<Rightarrow> pyexn + pyval"
  basemodel_dict :: "pyval \<Rightarrow> pyexn + pyval"

text \<open>
  The class of a class object is the class itself. \<^verbatim>\<open>dataclasses.is_dataclass\<close> and
  \<^verbatim>\<open>attrs.has\<close> accept a class or an instance and find the marker through the
  class.
\<close>

fun class_of :: "pyval \<Rightarrow> pyclass" where
  "class_of (PClass c) = c"
| "class_of v = type_of v"

text \<open>\<^verbatim>\<open>dataclasses.is_dataclass\<close>: true of a dataclass and of its instances.\<close>

definition is_dataclass :: "pyval \<Rightarrow> bool" where
  "is_dataclass v = cls_dataclass (class_of v)"

text \<open>
  pydantic's \<^verbatim>\<open>is_pydantic_dataclass\<close> looks for its marker in the \<^verbatim>\<open>__dict__\<close> of
  the argument itself, which holds it for the class only: the answer is \<^verbatim>\<open>False\<close>
  for every instance, also for an instance of a pydantic dataclass. The stubs of the
  failed imports answer \<^verbatim>\<open>False\<close> throughout.
\<close>

fun pydantic_marker :: "pyval \<Rightarrow> bool" where
  "pydantic_marker (PClass c) = cls_pydantic_dataclass c"
| "pydantic_marker v = False"

definition is_pydantic_dataclass :: "env \<Rightarrow> pyval \<Rightarrow> bool" where
  "is_pydantic_dataclass env v = (PYDANTIC_INSTALLED env \<and> pydantic_marker v)"

definition is_attrs :: "env \<Rightarrow> pyval \<Rightarrow> bool" where
  "is_attrs env v = (MSGSPEC_INSTALLED env \<and> cls_attrs (class_of v))"

section \<open>\<^verbatim>\<open>model_dump\<close>\<close>

text \<open>
  The if-chain of \<^verbatim>\<open>model_dump\<close> picks a backend routine, or none: with none the
  function returns \<^verbatim>\<open>raw\<close> at once, before any casing.
\<close>

definition dump_backend ::
  "env \<Rightarrow> pyval \<Rightarrow> bool \<Rightarrow> string option \<Rightarrow> (pyexn + pyval) option" where
  "dump_backend env raw by_alias preference =
     (if is_pydantic_dataclass env raw then Some (rootmodel_model_dump env raw)
      else if isinstance raw [''BaseModel''] then Some (basemodel_model_dump env raw by_alias)
      else if isinstance raw [''Struct''] \<or> is_attrs env raw then Some (to_builtins env raw)
      else if (isinstance raw [''list'', ''dict''] \<or> is_dataclass raw)
              \<and> PYDANTIC_INSTALLED env \<and> preference \<noteq> Some ''msgspec''
        then Some (typeadapter_dump_python env raw)
      else if (isinstance raw [''list'', ''dict''] \<or> is_dataclass raw)
              \<and> MSGSPEC_INSTALLED env \<and> preference \<noteq> Some ''pydantic''
        then Some (to_builtins env raw)
      else None)"

definition model_dump ::
  "env \<Rightarrow> pyval \<Rightarrow> bool \<Rightarrow> bool \<Rightarrow> bool \<Rightarrow> string option \<Rightarrow> pyexn + pyval" where
  "model_dump env raw by_alias camelize kebabize preference =
     (case dump_backend env raw by_alias preference of
        None \<Rightarrow> Inr raw
      | Some (Inl error) \<Rightarrow> Inl error
      | Some (Inr val) \<Rightarrow>
          if camelize then Inr (humps_camelize env val)
          else if kebabize then Inr (humps_kebabize env val)
          else Inr val)"

section \<open>\<^verbatim>\<open>model_load\<close>\<close>

text \<open>
  The body of the \<^verbatim>\<open>try\<close> block: the two backend branches and the final
  \<^verbatim>\<open>raise TypeError\<close>. \<^verbatim>\<open>isinstance(model_class, (list, dict))\<close> asks whether the
  class object is itself a list or a dict.
\<close>

definition load_pydantic_branch :: "env \<Rightarrow> pyclass \<Rightarrow> string option \<Rightarrow> bool" where
  "load_pydantic_branch env model_class preference =
     (is_pydantic_dataclass env (PClass model_class)
      \<or> issubclass model_class ''BaseModel''
      \<or> ((isinstance (PClass model_class) [''list'', ''dict''] \<or> is_dataclass (PClass model_class))
          \<and> PYDANTIC_INSTALLED env \<and> preference \<noteq> Some ''msgspec''))"

definition load_msgspec_branch :: "env \<Rightarrow> pyclass \<Rightarrow> string option \<Rightarrow> bool" where
  "load_msgspec_branch env model_class preference =
     (issubclass model_class ''Struct''
      \<or> is_attrs env (PClass model_class)
      \<or> ((isinstance (PClass model_class) [''list'', ''dict''] \<or> is_dataclass (PClass model_class))
          \<and> MSGSPEC_INSTALLED env \<and> preference \<noteq> Some ''pydantic''))"

definition cannot_load :: "pyclass \<Rightarrow> pyexn" where
  "cannot_load model_class = Raised TypeError (Msg (''Cannot load '' @ cls_name model_class))"

definition load_try_body :: "env \<Rightarrow> pyval \<Rightarrow> pyclass \<Rightarrow> string option \<Rightarrow> pyexn + pyval" where
  "load_try_body env data model_class preference =
     (if load_pydantic_branch env model_class preference
        then typeadapter_validate_python env model_class data
      else if load_msgspec_branch env model_class preference
        then convert env data model_class
      else Inl (cannot_load model_class))"

definition load_caught :: "string list" where
  "load_caught = [''TypeError'', ''MsgSpecValidationError'', ''PydanticValidationError'', ''ValueError'']"

definition model_load ::
  "env \<Rightarrow> pyval \<Rightarrow> pyclass \<Rightarrow> pyclass \<Rightarrow> bool \<Rightarrow> string option \<Rightarrow> pyexn + pyval" where
  "model_load env data0 model_class exception_class decamelize preference =
     (let data = (if decamelize then humps_decamelize env data0 else data0) in
      case load_try_body env data model_class preference of
        Inr v \<Rightarrow> Inr v
      | Inl error \<Rightarrow>
          if caught_by error load_caught then Inl (Raised exception_class (Wrapped error))
          else Inl error)"

text \<open>
  The plain data of a value: an instance becomes the dict of its attributes, a tuple a
  list. It stands for \<^verbatim>\<open>dataclasses.asdict\<close> and for the dump routines in the
  concrete environments below.
\<close>

primrec builtins_of :: "pyval \<Rightarrow> pyval" where
  "builtins_of PNone = PNone"
| "builtins_of (PBool b) = PBool b"
| "builtins_of (PInt i) = PInt i"
| "builtins_of (PStr s) = PStr s"
| "builtins_of (PList xs) = PList (map builtins_of xs)"
| "builtins_of (PTuple xs) = PList (map builtins_of xs)"
| "builtins_of (PDict kvs) = PDict (map (map_prod id builtins_of) kvs)"
| "builtins_of (PClass c) = PClass c"
| "builtins_of (PObj c attrs) = PDict (map (map_prod PStr builtins_of) attrs)"

text \<open>
  The environment of the source's own fallbacks, with neither library importable:
  \<^verbatim>\<open>to_builtins\<close> is the identity; \<^verbatim>\<open>convert\<close> is called with the keyword
  \<^verbatim>\<open>strict\<close>, which its stub does not take, so the call raises \<^verbatim>\<open>TypeError\<close>
  before the body of the stub runs; and the
  stub classes \<^verbatim>\<open>RootModel\<close>, \<^verbatim>\<open>TypeAdapter\<close> and \<^verbatim>\<open>BaseModel\<close> have neither
  constructor arguments nor methods. humps is taken as the identity here, and a class
  is constructed from exactly its declared fields.
\<close>

definition stub_construct :: "pyclass \<Rightarrow> (string \<times> pyval) list \<Rightarrow> pyexn + pyval" where
  "stub_construct c kwargs =
     (if set (map fst kwargs) = set (cls_fields c) \<and> distinct (map fst kwargs)
      then Inr (PObj c kwargs)
      else Inl (Raised TypeError (Msg ''unexpected or missing keyword argument'')))"

definition stub_env :: env where
  "stub_env =
     \<lparr>PYDANTIC_INSTALLED = False,
      MSGSPEC_INSTALLED = False,
      rootmodel_model_dump = (\<lambda>raw. Inl (Raised TypeError (Msg ''RootModel is not subscriptable''))),
      basemodel_model_dump = (\<lambda>raw by_alias.
         Inl (Raised (plain_class ''AttributeError'' [''Exception'', ''BaseException'', ''object''])
                (Msg ''model_dump''))),
      typeadapter_dump_python = (\<lambda>raw. Inl (Raised TypeError (Msg ''TypeAdapter() takes no arguments''))),
      typeadapter_validate_python = (\<lambda>c data.
         Inl (Raised TypeError (Msg ''TypeAdapter() takes no arguments''))),
      to_builtins = (\<lambda>object. Inr object),
      convert = (\<lambda>object type.
         Inl (Raised TypeError (Msg ''convert() got an unexpected keyword argument strict''))),
      humps_camelize = (\<lambda>v. v),
      humps_kebabize = (\<lambda>v. v),
      humps_decamelize = (\<lambda>v. v),
      construct = stub_construct,
      dataclasses_asdict = (\<lambda>v. Inr (builtins_of v)),
      basemodel_dict = (\<lambda>v.
         Inl (Raised (plain_class ''AttributeError'' [''Exception'', ''BaseException'', ''object''])
                (Msg ''dict'')))\<rparr>"

definition CallerError :: pyclass where
  "CallerError = plain_class ''ValidationError'' [''Exception'', ''BaseException'', ''object'']"

section \<open>Recognised and opaque values\<close>

text \<open>The values for which the if-chain of \<^verbatim>\<open>model_dump\<close> reaches a backend.\<close>

definition recognised_by_dump :: "env \<Rightarrow> pyval \<Rightarrow> string option \<Rightarrow> bool" where
  "recognised_by_dump env raw preference =
     (is_pydantic_dataclass env raw
      \<or> isinstance raw [''BaseModel'']
      \<or> isinstance raw [''Struct'']
      \<or> is_attrs env raw
      \<or> ((isinstance raw [''list'', ''dict''] \<or> is_dataclass raw)
          \<and> (PYDANTIC_INSTALLED env \<and> preference \<noteq> Some ''msgspec''
              \<or> MSGSPEC_INSTALLED env \<and> preference \<noteq> Some ''pydantic'')))"

text \<open>The backend conversion that \<^verbatim>\<open>model_load\<close> runs for a recognised target.\<close>

definition load_data :: "env \<Rightarrow> bool \<Rightarrow> pyval \<Rightarrow> pyval" where
  "load_data env decamelize data = (if decamelize then humps_decamelize env data else data)"

definition backend_conversion :: "env \<Rightarrow> pyval \<Rightarrow> pyclass \<Rightarrow> string option \<Rightarrow> pyexn + pyval" where
  "backend_conversion env data model_class preference =
     (if load_pydantic_branch env model_class preference
      then typeadapter_validate_python env model_class data
      else convert env data model_class)"

section \<open>A small pair of backends for concrete runs\<close>

text \<open>
  Stand-ins for the libraries, used only to run the model on concrete inputs: the dump
  is \<open>builtins_of\<close>, a loader that rebuilds an
  instance from a dict holding exactly the declared fields, and key casings that
  rewrite \<^verbatim>\<open>_\<close> in dict keys.
\<close>

fun str_key :: "pyval \<times> pyval \<Rightarrow> (string \<times> pyval) option" where
  "str_key (PStr k, v) = Some (k, v)"
| "str_key (k, v) = None"

definition PydanticValidationError :: pyclass where
  "PydanticValidationError =
     plain_class ''PydanticValidationError'' [''ValueError'', ''Exception'', ''BaseException'', ''object'']"

definition MsgSpecValidationError :: pyclass where
  "MsgSpecValidationError =
     plain_class ''MsgSpecValidationError''
       [''DecodeError'', ''MsgspecError'', ''Exception'', ''BaseException'', ''object'']"

definition instance_of_dict :: "pyclass \<Rightarrow> pyclass \<Rightarrow> pyval \<Rightarrow> pyexn + pyval" where
  "instance_of_dict err c data =
     (case data of
        PDict kvs \<Rightarrow>
          if list_all (\<lambda>kv. str_key kv \<noteq> None) kvs
             \<and> map fst (map (the \<circ> str_key) kvs) = cls_fields c
          then Inr (PObj c (map (the \<circ> str_key) kvs))
          else Inl (Raised err (Msg ''fields do not match''))
      | _ \<Rightarrow> Inl (Raised err (Msg ''not a mapping'')))"

primrec rekey :: "(string \<Rightarrow> string) \<Rightarrow> pyval \<Rightarrow> pyval" where
  "rekey f PNone = PNone"
| "rekey f (PBool b) = PBool b"
| "rekey f (PInt i) = PInt i"
| "rekey f (PStr s) = PStr s"
| "rekey f (PList xs) = PList (map (rekey f) xs)"
| "rekey f (PTuple xs) = PTuple xs"
| "rekey f (PDict kvs) =
     PDict (map (map_prod (\<lambda>k. case k of PStr s \<Rightarrow> PStr (f s) | _ \<Rightarrow> k) (rekey f)) kvs)"
| "rekey f (PClass c) = PClass c"
| "rekey f (PObj c attrs) = PObj c attrs"

definition demo_env :: env where
  "demo_env =
     \<lparr>PYDANTIC_INSTALLED = True,
      MSGSPEC_INSTALLED = True,
      rootmodel_model_dump = (\<lambda>raw. Inr (builtins_of raw)),
      basemodel_model_dump = (\<lambda>raw by_alias. Inr (builtins_of raw)),
      typeadapter_dump_python = (\<lambda>raw. Inr (builtins_of raw)),
      typeadapter_validate_python = (\<lambda>c data. instance_of_dict PydanticValidationError c data),
      to_builtins = (\<lambda>object. Inr (builtins_of object)),
      convert = (\<lambda>object c. instance_of_dict MsgSpecValidationError c object),
      humps_camelize = rekey (filter (\<lambda>c. c \<noteq> CHR ''_'' \<and> c \<noteq> CHR ''-'')),
      humps_kebabize = rekey (map (\<lambda>c. if c = CHR ''_'' then CHR ''-'' else c)),
      humps_decamelize = (\<lambda>v. v),
      construct = stub_construct,
      dataclasses_asdict = (\<lambda>v. Inr (builtins_of v)),
      basemodel_dict = (\<lambda>v. Inr (builtins_of v))\<rparr>"

text \<open>The record classes of the repository's tests.\<close>

definition PyDetails :: pyclass where
  "PyDetails = (plain_class ''PyDetails'' [''BaseModel'', ''object''])\<lparr>cls_fields := [''name'', ''age'']\<rparr>"

definition MDetails :: pyclass where
  "MDetails = (plain_class ''MDetails'' [''Struct'', ''object''])\<lparr>cls_fields := [''name'', ''age'']\<rparr>"

definition DCDetails :: pyclass where
  "DCDetails =
     (plain_class ''DCDetails'' [''object''])\<lparr>cls_dataclass := True, cls_fields := [''name'', ''age'']\<rparr>"

definition bob :: "(string \<times> pyval) list" where
  "bob = [(''name'', PStr ''bob''), (''age'', PInt 2)]"

definition only_pydantic :: env where
  "only_pydantic = demo_env\<lparr>MSGSPEC_INSTALLED := False\<rparr>"

section \<open>The round trip\<close>

text \<open>
  Dump a value with casing off and aliases off, then load the result into the value's
  own type, with the same preference on both sides.
\<close>

definition round_trip :: "env \<Rightarrow> pyval \<Rightarrow> pyclass \<Rightarrow> string option \<Rightarrow> pyexn + pyval" where
  "round_trip env v exception_class preference =
     (case model_dump env v False False False preference of
        Inl error \<Rightarrow> Inl error
      | Inr data \<Rightarrow> model_load env data (type_of v) exception_class False preference)"

section \<open>\<^verbatim>\<open>convert_response_return_value\<close>\<close>

text \<open>The three options of the process-wide configuration that the function reads.\<close>

record config =
  QUART_SCHEMA_CONVERT_CASING :: bool
  QUART_SCHEMA_BY_ALIAS :: bool
  QUART_SCHEMA_CONVERSION_PREFERENCE :: "string option"

text \<open>
  \<^verbatim>\<open>isinstance(result, tuple)\<close> holds of a tuple and of an instance of a tuple
  subclass, such as a named tuple, whose elements are its attribute values in order.
\<close>

fun tuple_elements :: "pyval \<Rightarrow> pyval list option" where
  "tuple_elements (PTuple xs) = Some xs"
| "tuple_elements (PObj c attrs) = (if issubclass c ''tuple'' then Some (map snd attrs) else None)"
| "tuple_elements v = None"

text \<open>
  The first if-chain: \<^verbatim>\<open>value\<close>, \<^verbatim>\<open>status\<close> and \<^verbatim>\<open>headers\<close> after unpacking.
  \<^verbatim>\<open>status\<close> and \<^verbatim>\<open>headers\<close> start as \<^verbatim>\<open>None\<close>; a tuple of any other length
  than 2 or 3 leaves \<^verbatim>\<open>value\<close> unbound.
\<close>

definition unpack_result :: "pyval \<Rightarrow> pyval option \<times> pyval \<times> pyval" where
  "unpack_result result =
     (case tuple_elements result of
        Some [val, status, headers] \<Rightarrow> (Some val, status, headers)
      | Some [val, status_or_headers] \<Rightarrow>
          if isinstance status_or_headers [''int'']
          then (Some val, status_or_headers, PNone)
          else (Some val, PNone, status_or_headers)
      | Some xs \<Rightarrow> (None, PNone, PNone)
      | None \<Rightarrow> (Some result, PNone, PNone))"

text \<open>The second if-chain: \<^verbatim>\<open>new_result\<close>, unbound for a tuple of another length.\<close>

definition new_result :: "pyval \<Rightarrow> pyval \<Rightarrow> pyval \<Rightarrow> pyval \<Rightarrow> pyval option" where
  "new_result result val status headers =
     (case tuple_elements result of
        Some xs \<Rightarrow>
          if length xs = 3 then Some (PTuple [val, status, headers])
          else if length xs = 2 then
            (if status \<noteq> PNone then Some (PTuple [val, status]) else Some (PTuple [val, headers]))
          else None
      | None \<Rightarrow> Some val)"

definition unbound_local :: "string \<Rightarrow> pyexn" where
  "unbound_local name = Raised UnboundLocalError (Msg name)"

definition convert_response_return_value :: "env \<Rightarrow> config \<Rightarrow> pyval \<Rightarrow> pyexn + pyval" where
  "convert_response_return_value env cfg result =
     (if isinstance result [''HTTPException''] then Inr result
      else case unpack_result result of
        (None, status, headers) \<Rightarrow> Inl (unbound_local ''value'')
      | (Some val, status, headers) \<Rightarrow>
          (case model_dump env val (QUART_SCHEMA_BY_ALIAS cfg) (QUART_SCHEMA_CONVERT_CASING cfg)
                  False (QUART_SCHEMA_CONVERSION_PREFERENCE cfg) of
             Inl error \<Rightarrow> Inl error
           | Inr val' \<Rightarrow>
               (case model_dump env headers (QUART_SCHEMA_BY_ALIAS cfg) False True
                       (QUART_SCHEMA_CONVERSION_PREFERENCE cfg) of
                  Inl error \<Rightarrow> Inl error
                | Inr headers' \<Rightarrow>
                    (case new_result result val' status headers' of
                       None \<Rightarrow> Inl (unbound_local ''new_result'')
                     | Some r \<Rightarrow> Inr r))))"

definition NotFound :: pyval where
  "NotFound =
     PObj (plain_class ''NotFound'' [''HTTPException'', ''Exception'', ''BaseException'', ''object'']) []"


definition camel_config :: config where
  "camel_config =
     \<lparr>QUART_SCHEMA_CONVERT_CASING = True, QUART_SCHEMA_BY_ALIAS = False,
      QUART_SCHEMA_CONVERSION_PREFERENCE = None\<rparr>"



section \<open>\<^verbatim>\<open>convert_headers\<close>\<close>

text \<open>
  \<^verbatim>\<open>str.lower\<close> on the ASCII letters, and \<^verbatim>\<open>humps.dekebabize\<close> on a string, which
  replaces every hyphen by an underscore.
\<close>

definition lower_char :: "char \<Rightarrow> char" where
  "lower_char c =
     (case map_of (zip ''ABCDEFGHIJKLMNOPQRSTUVWXYZ'' ''abcdefghijklmnopqrstuvwxyz'') c of
        Some l \<Rightarrow> l
      | None \<Rightarrow> c)"

definition str_lower :: "string \<Rightarrow> string" where
  "str_lower s = map lower_char s"





fun join :: "string \<Rightarrow> string list \<Rightarrow> string" where
  "join sep [] = []"
| "join sep [x] = x"
| "join sep (x # y # ys) = x @ sep @ join sep (y # ys)"











section \<open>\<^verbatim>\<open>_split_definitions\<close>\<close>

text \<open>
  Dict objects live in a store and are named by their address, an index into the store,
  so that copying and mutating are visible: \<^verbatim>\<open>schema.copy()\<close> allocates a new dict
  with the same entries, and \<^verbatim>\<open>pop\<close> mutates the dict it is called on.
\<close>

type_synonym dict_items = "(pyval \<times> pyval) list"

type_synonym store = "dict_items list"

definition dict_copy :: "store \<Rightarrow> nat \<Rightarrow> nat \<times> store" where
  "dict_copy st a = (length st, st @ [st ! a])"

definition dict_pop :: "store \<Rightarrow> nat \<Rightarrow> pyval \<Rightarrow> pyval \<Rightarrow> pyval \<times> store" where
  "dict_pop st a key dflt =
     (case map_of (st ! a) key of
        Some v \<Rightarrow> (v, st[a := AList.delete key (st ! a)])
      | None \<Rightarrow> (dflt, st))"

definition split_definitions_in :: "store \<Rightarrow> nat \<Rightarrow> (pyval \<times> nat) \<times> store" where
  "split_definitions_in st schema =
     (let (new_schema, st1) = dict_copy st schema;
          (definitions, st2) = dict_pop st1 new_schema (PStr ''definitions'') (PDict [])
      in ((definitions, new_schema), st2))"

text \<open>The same function on the entries alone, as \<^verbatim>\<open>openapi\<close> uses it.\<close>

definition split_definitions :: "dict_items \<Rightarrow> pyval \<times> dict_items" where
  "split_definitions schema =
     (case map_of schema (PStr ''definitions'') of
        Some v \<Rightarrow> (v, AList.delete (PStr ''definitions'') schema)
      | None \<Rightarrow> (PDict [], schema))"

definition person_schema :: dict_items where
  "person_schema =
     [(PStr ''title'', PStr ''Person''),
      (PStr ''definitions'', PDict [(PStr ''Pet'', PDict [(PStr ''type'', PStr ''object'')])]),
      (PStr ''type'', PStr ''object'')]"

section \<open>\<^verbatim>\<open>WebsocketMixin.send_as\<close>\<close>

text \<open>
  The websocket is the list of the messages handed to \<^verbatim>\<open>send_json\<close>.
  \<^verbatim>\<open>ValidationError\<close> in \<^verbatim>\<open>extension.py\<close> is pydantic's, the class that
  \<^verbatim>\<open>conversion.py\<close> imports as \<^verbatim>\<open>PydanticValidationError\<close>.
\<close>

record websocket =
  sent :: "pyval list"

definition SchemaValidationError :: pyclass where
  "SchemaValidationError =
     plain_class ''SchemaValidationError'' [''Exception'', ''BaseException'', ''object'']"

text \<open>
  The keyword arguments of \<^verbatim>\<open>model_class(**value)\<close>: the entries of the dict, whose
  keys must be strings. An instance of a dict subclass gives its attributes.
\<close>

fun dict_entries :: "pyval \<Rightarrow> (pyval \<times> pyval) list" where
  "dict_entries (PDict kvs) = kvs"
| "dict_entries (PObj c attrs) = map (map_prod PStr id) attrs"
| "dict_entries v = []"

definition keyword_arguments :: "pyval \<Rightarrow> pyexn + (string \<times> pyval) list" where
  "keyword_arguments v =
     (if list_all (\<lambda>kv. str_key kv \<noteq> None) (dict_entries v)
      then Inr (map (the \<circ> str_key) (dict_entries v))
      else Inl (Raised TypeError (Msg ''keywords must be strings'')))"

definition send_as_model_value :: "env \<Rightarrow> pyval \<Rightarrow> pyclass \<Rightarrow> pyexn + pyval" where
  "send_as_model_value env val model_class =
     (if isinstance val [''dict''] then
        (case keyword_arguments val of
           Inl error \<Rightarrow> Inl error
         | Inr kwargs \<Rightarrow>
             (case construct env model_class kwargs of
                Inr model_value \<Rightarrow> Inr model_value
              | Inl error \<Rightarrow>
                  if caught_by error [''PydanticValidationError'']
                  then Inl (Raised SchemaValidationError NoArgs)
                  else Inl error))
      else if type_of val = model_class then Inr val
      else Inl (Raised SchemaValidationError NoArgs))"

definition send_as :: "env \<Rightarrow> websocket \<Rightarrow> pyval \<Rightarrow> pyclass \<Rightarrow> pyexn + websocket" where
  "send_as env self val model_class =
     (case send_as_model_value env val model_class of
        Inl error \<Rightarrow> Inl error
      | Inr model_value \<Rightarrow>
          (case (if is_dataclass model_value then dataclasses_asdict env model_value
                 else basemodel_dict env model_value) of
             Inl error \<Rightarrow> Inl error
           | Inr data \<Rightarrow> Inr (self\<lparr>sent := sent self @ [data]\<rparr>)))"

definition VIPDetails :: pyclass where
  "VIPDetails =
     (plain_class ''VIPDetails'' [''DCDetails'', ''object''])
       \<lparr>cls_dataclass := True, cls_fields := [''name'', ''age'']\<rparr>"

section \<open>\<^verbatim>\<open>QuartSchema.openapi\<close>\<close>

text \<open>
  What \<^verbatim>\<open>openapi\<close> reads of a routing rule and of its view function: the rule
  string, the endpoint, the accepted methods (in the order the loop meets them), whether
  the router answers \<^verbatim>\<open>OPTIONS\<close> by itself, and the names of the converters; the
  docstring and the three schema attributes, each schema being a dict.
\<close>

record rule =
  rule_rule :: string
  rule_endpoint :: string
  rule_methods :: "string list"
  rule_provide_automatic_options :: bool
  rule_converters :: "string list"

record view_function =
  func_doc :: "string option"
  func_response_schemas :: "(pyval \<times> dict_items) list"
  func_request_schema :: "dict_items option"
  func_querystring_schema :: "dict_items option"

record quart_schema =
  app_url_map :: "rule list"
  app_view_functions :: "(string \<times> view_function) list"
  schema_title :: "string option"
  schema_version :: string

text \<open>
  \<^verbatim>\<open>str.splitlines\<close>, with the line boundaries of the ASCII range: line feed,
  carriage return (and the two together), vertical tab, form feed and the file, group
  and record separators.
\<close>

definition line_boundary :: "char \<Rightarrow> bool" where
  "line_boundary c =
     (c \<in> set [CHR 0x0A, CHR 0x0D, CHR 0x0B, CHR 0x0C, CHR 0x1C, CHR 0x1D, CHR 0x1E])"

fun splitlines_from :: "string \<Rightarrow> string \<Rightarrow> string list" where
  "splitlines_from line [] = (if line = [] then [] else [line])"
| "splitlines_from line [c] = (if line_boundary c then [line] else [line @ [c]])"
| "splitlines_from line (c # d # cs) =
     (if c = CHR 0x0D \<and> d = CHR 0x0A then line # splitlines_from [] cs
      else if line_boundary c then line # splitlines_from [] (d # cs)
      else splitlines_from (line @ [c]) (d # cs))"

definition splitlines :: "string \<Rightarrow> string list" where
  "splitlines s = splitlines_from [] s"

text \<open>
  \<^verbatim>\<open>re.sub(PATH_RE, r"{\1}", rule.rule)\<close> with
  \<^verbatim>\<open>PATH_RE = "<(?:[^:]*:)?([^>]+)>"\<close>. After a \<^verbatim>\<open><\<close> the optional group, being
  greedy, is tried first and can only end at the first colon of the rest; the name is
  then the non-empty text up to the next \<^verbatim>\<open>>\<close>. Where that fails the group is left
  out and the name starts right after the \<^verbatim>\<open><\<close>.
\<close>

fun split_at :: "char \<Rightarrow> string \<Rightarrow> (string \<times> string) option" where
  "split_at x [] = None"
| "split_at x (c # cs) =
     (if c = x then Some ([], cs)
      else case split_at x cs of None \<Rightarrow> None | Some (pre, post) \<Rightarrow> Some (c # pre, post))"

definition capture_name :: "string \<Rightarrow> (string \<times> string) option" where
  "capture_name s =
     (case split_at (CHR ''>'') s of
        None \<Rightarrow> None
      | Some (name, rest) \<Rightarrow> if name = [] then None else Some (name, rest))"

definition match_PATH_RE :: "string \<Rightarrow> (string \<times> string) option" where
  "match_PATH_RE s =
     (case (case split_at (CHR '':'') s of
              None \<Rightarrow> None
            | Some (converter, rest) \<Rightarrow> capture_name rest) of
        Some m \<Rightarrow> Some m
      | None \<Rightarrow> capture_name s)"

lemma split_at_shorter: "split_at x s = Some (pre, post) \<Longrightarrow> length post < length s"
  by (induction s arbitrary: pre) (auto split: if_splits option.splits)

lemma match_PATH_RE_shorter: "match_PATH_RE s = Some (name, rest) \<Longrightarrow> length rest < length s"
  by (fastforce simp add: match_PATH_RE_def capture_name_def
      split: option.splits if_splits dest: split_at_shorter)

function sub_PATH_RE :: "string \<Rightarrow> string" where
  "sub_PATH_RE [] = []"
| "sub_PATH_RE (c # cs) =
     (if c = CHR ''<'' then
        (case match_PATH_RE cs of
           Some (name, rest) \<Rightarrow> ''{'' @ name @ ''}'' @ sub_PATH_RE rest
         | None \<Rightarrow> c # sub_PATH_RE cs)
      else c # sub_PATH_RE cs)"
  by pat_completeness auto
termination
  by (relation "measure length") (auto dest: match_PATH_RE_shorter)

text \<open>The pieces of the operation object (\<^verbatim>\<open>path_object\<close>).\<close>

definition json_content :: "dict_items \<Rightarrow> pyval" where
  "json_content schema =
     PDict [(PStr ''content'',
             PDict [(PStr ''application/json'', PDict [(PStr ''schema'', PDict schema)])])]"

text \<open>
  \<^verbatim>\<open>components["schemas"].update(definitions)\<close>: the entries of a dict are stored one
  by one, a later one replacing an earlier one of the same name. Anything but a dict is
  taken to raise (an iterable of pairs, which Python accepts too, is not modelled).
\<close>

definition dict_update :: "dict_items \<Rightarrow> pyval \<Rightarrow> pyexn + dict_items" where
  "dict_update d other =
     (case other of
        PDict kvs \<Rightarrow> Inr (fold (\<lambda>kv acc. AList.update (fst kv) (snd kv) acc) kvs d)
      | _ \<Rightarrow> Inl (Raised TypeError (Msg ''cannot update from a non-mapping'')))"

text \<open>The loop over \<^verbatim>\<open>response_schemas.items()\<close>: the responses and the components.\<close>

fun add_responses ::
  "(pyval \<times> dict_items) list \<Rightarrow> dict_items \<times> dict_items \<Rightarrow> pyexn + dict_items \<times> dict_items" where
  "add_responses [] (responses, schemas) = Inr (responses, schemas)"
| "add_responses ((status_code, schema) # rest) (responses, schemas) =
     (case split_definitions schema of
        (definitions, schema') \<Rightarrow>
          (case dict_update schemas definitions of
             Inl error \<Rightarrow> Inl error
           | Inr schemas' \<Rightarrow>
               add_responses rest
                 (AList.update status_code (json_content schema') responses, schemas')))"

definition add_request ::
  "dict_items option \<Rightarrow> dict_items \<Rightarrow> pyexn + dict_items \<times> dict_items" where
  "add_request request_schema schemas =
     (case request_schema of
        None \<Rightarrow> Inr ([], schemas)
      | Some rs \<Rightarrow>
          (case split_definitions rs of
             (definitions, schema) \<Rightarrow>
               (case dict_update schemas definitions of
                  Inl error \<Rightarrow> Inl error
                | Inr schemas' \<Rightarrow>
                    Inr ([(PStr ''requestBody'', json_content schema)], schemas'))))"

definition query_parameter :: "pyval \<times> pyval \<Rightarrow> pyval" where
  "query_parameter p =
     PDict [(PStr ''name'', fst p), (PStr ''in'', PStr ''query''), (PStr ''schema'', snd p)]"

definition KeyError :: pyclass where
  "KeyError = plain_class ''KeyError'' [''LookupError'', ''Exception'', ''BaseException'', ''object'']"

definition AttributeError :: pyclass where
  "AttributeError = plain_class ''AttributeError'' [''Exception'', ''BaseException'', ''object'']"

definition add_query ::
  "dict_items option \<Rightarrow> dict_items \<Rightarrow> pyexn + pyval list \<times> dict_items" where
  "add_query querystring_schema schemas =
     (case querystring_schema of
        None \<Rightarrow> Inr ([], schemas)
      | Some qs \<Rightarrow>
          (case split_definitions qs of
             (definitions, schema) \<Rightarrow>
               (case dict_update schemas definitions of
                  Inl error \<Rightarrow> Inl error
                | Inr schemas' \<Rightarrow>
                    (case map_of schema (PStr ''properties'') of
                       None \<Rightarrow> Inl (Raised KeyError (Msg ''properties''))
                     | Some (PDict properties) \<Rightarrow> Inr (map query_parameter properties, schemas')
                     | Some _ \<Rightarrow> Inl (Raised AttributeError (Msg ''items''))))))"

definition path_parameter :: "string \<Rightarrow> pyval" where
  "path_parameter name = PDict [(PStr ''name'', PStr name), (PStr ''in'', PStr ''path'')]"

text \<open>
  \<^verbatim>\<open>summary, *description = func.__doc__.splitlines()\<close>: an empty docstring has no
  first line and the unpacking raises \<^verbatim>\<open>ValueError\<close>.
\<close>

definition doc_entries :: "string option \<Rightarrow> pyexn + dict_items" where
  "doc_entries doc =
     (case doc of
        None \<Rightarrow> Inr []
      | Some text \<Rightarrow>
          (case splitlines text of
             [] \<Rightarrow> Inl (Raised ValueError (Msg ''not enough values to unpack''))
           | summary # description \<Rightarrow>
               Inr [(PStr ''description'', PStr (join [CHR 0x0A] description)),
                    (PStr ''summary'', PStr summary)]))"

text \<open>
  The operation object of one rule, with the components after its definitions have
  been merged in. The keys are listed in the order of their first assignment.
\<close>

definition build_path_object ::
  "view_function \<Rightarrow> rule \<Rightarrow> dict_items \<Rightarrow> pyexn + pyval \<times> dict_items" where
  "build_path_object func rule schemas =
     (case doc_entries (func_doc func) of
        Inl error \<Rightarrow> Inl error
      | Inr doc \<Rightarrow>
     (case add_responses (func_response_schemas func) ([], schemas) of
        Inl error \<Rightarrow> Inl error
      | Inr (responses, schemas1) \<Rightarrow>
     (case add_request (func_request_schema func) schemas1 of
        Inl error \<Rightarrow> Inl error
      | Inr (request_body, schemas2) \<Rightarrow>
     (case add_query (func_querystring_schema func) schemas2 of
        Inl error \<Rightarrow> Inl error
      | Inr (query_parameters, schemas3) \<Rightarrow>
          Inr (PDict ([(PStr ''parameters'',
                        PList (query_parameters @ map path_parameter (rule_converters rule))),
                       (PStr ''responses'', PDict responses)]
                      @ doc @ request_body),
               schemas3)))))"

text \<open>The loop over \<^verbatim>\<open>rule.methods\<close>, filling the method map of the path.\<close>

definition skipped :: "rule \<Rightarrow> string \<Rightarrow> bool" where
  "skipped rule method =
     (method = ''HEAD'' \<or> (method = ''OPTIONS'' \<and> rule_provide_automatic_options rule))"

fun attach_methods ::
  "rule \<Rightarrow> pyval \<Rightarrow> string list \<Rightarrow> (string \<times> pyval) list \<Rightarrow> (string \<times> pyval) list" where
  "attach_methods rule path_object [] method_map = method_map"
| "attach_methods rule path_object (method # methods) method_map =
     (if skipped rule method then attach_methods rule path_object methods method_map
      else attach_methods rule path_object methods
             (AList.update (str_lower method) path_object method_map))"

text \<open>
  A rule whose view function carries no schema at all is passed over
  (\<^verbatim>\<open>continue\<close>).
\<close>

definition undocumented :: "view_function \<Rightarrow> bool" where
  "undocumented func =
     (func_response_schemas func = [] \<and> func_request_schema func = None
      \<and> func_querystring_schema func = None)"

type_synonym paths = "(string \<times> (string \<times> pyval) list) list"

definition method_map_at :: "paths \<Rightarrow> string \<Rightarrow> (string \<times> pyval) list" where
  "method_map_at ps path = (case map_of ps path of Some mm \<Rightarrow> mm | None \<Rightarrow> [])"

definition process_rule ::
  "quart_schema \<Rightarrow> rule \<Rightarrow> paths \<times> dict_items \<Rightarrow> pyexn + paths \<times> dict_items" where
  "process_rule self rule acc =
     (case acc of (ps, schemas) \<Rightarrow>
      (case map_of (app_view_functions self) (rule_endpoint rule) of
         None \<Rightarrow> Inl (Raised KeyError (Msg (rule_endpoint rule)))
       | Some func \<Rightarrow>
           if undocumented func then Inr (ps, schemas)
           else
             (case build_path_object func rule schemas of
                Inl error \<Rightarrow> Inl error
              | Inr (path_object, schemas') \<Rightarrow>
                  (let path = sub_PATH_RE (rule_rule rule) in
                   Inr (AList.update path
                          (attach_methods rule path_object (rule_methods rule) (method_map_at ps path))
                          ps,
                        schemas')))))"

fun process_rules ::
  "quart_schema \<Rightarrow> rule list \<Rightarrow> paths \<times> dict_items \<Rightarrow> pyexn + paths \<times> dict_items" where
  "process_rules self [] acc = Inr acc"
| "process_rules self (rule # rules) acc =
     (case process_rule self rule acc of
        Inl error \<Rightarrow> Inl error
      | Inr acc' \<Rightarrow> process_rules self rules acc')"

definition paths_value :: "paths \<Rightarrow> pyval" where
  "paths_value ps =
     PDict (map (\<lambda>p. (PStr (fst p), PDict (map (map_prod PStr id) (snd p)))) ps)"

definition openapi :: "quart_schema \<Rightarrow> pyexn + pyval" where
  "openapi self =
     (case process_rules self (app_url_map self) ([], []) of
        Inl error \<Rightarrow> Inl error
      | Inr (ps, schemas) \<Rightarrow>
          Inr (PDict
                [(PStr ''openapi'', PStr ''3.0.3''),
                 (PStr ''info'',
                  PDict [(PStr ''title'', (case schema_title self of None \<Rightarrow> PNone | Some t \<Rightarrow> PStr t)),
                         (PStr ''version'', PStr (schema_version self))]),
                 (PStr ''components'', PDict [(PStr ''schemas'', PDict schemas)]),
                 (PStr ''paths'', paths_value ps)]))"

text \<open>The operation stored in a document under a path and a method key.\<close>

definition operation_at :: "pyval \<Rightarrow> string \<Rightarrow> string \<Rightarrow> pyval option" where
  "operation_at doc path key =
     (case doc of
        PDict entries \<Rightarrow>
          (case map_of entries (PStr ''paths'') of
             Some (PDict ps) \<Rightarrow>
               (case map_of ps (PStr path) of
                  Some (PDict mm) \<Rightarrow> map_of mm (PStr key)
                | _ \<Rightarrow> None)
           | _ \<Rightarrow> None)
      | _ \<Rightarrow> None)"

text \<open>
  A rule is documented when its view function carries some schema. It then attaches
  its operation under the key \<open>k\<close> of the path \<open>p\<close> when \<open>p\<close> is its rewritten rule
  string and \<open>k\<close> is the lower-cased name of one of its methods, other than \<^verbatim>\<open>HEAD\<close>,
  and other than \<^verbatim>\<open>OPTIONS\<close> where the router provides it.
\<close>

definition documented :: "quart_schema \<Rightarrow> rule \<Rightarrow> bool" where
  "documented self rule =
     (case map_of (app_view_functions self) (rule_endpoint rule) of
        None \<Rightarrow> False
      | Some func \<Rightarrow> \<not> undocumented func)"

definition attaches :: "quart_schema \<Rightarrow> rule \<Rightarrow> string \<Rightarrow> string \<Rightarrow> bool" where
  "attaches self rule p k =
     (documented self rule \<and> sub_PATH_RE (rule_rule rule) = p
      \<and> list_ex (\<lambda>method. method \<noteq> ''HEAD''
                    \<and> \<not> (method = ''OPTIONS'' \<and> rule_provide_automatic_options rule)
                    \<and> str_lower method = k)
           (rule_methods rule))"

definition operation_of :: "quart_schema \<Rightarrow> rule \<Rightarrow> pyval \<Rightarrow> bool" where
  "operation_of self rule op =
     (\<exists>func schemas schemas'.
        map_of (app_view_functions self) (rule_endpoint rule) = Some func
        \<and> build_path_object func rule schemas = Inr (op, schemas'))"

text \<open>A small application: one documented route and one without schemas.\<close>

definition item_rule :: rule where
  "item_rule =
     \<lparr>rule_rule = ''/item/<int:id>'', rule_endpoint = ''item'',
      rule_methods = [''GET'', ''HEAD'', ''OPTIONS''],
      rule_provide_automatic_options = True, rule_converters = [''id'']\<rparr>"

definition index_rule :: rule where
  "index_rule =
     \<lparr>rule_rule = ''/'', rule_endpoint = ''index'', rule_methods = [''GET'', ''HEAD'', ''OPTIONS''],
      rule_provide_automatic_options = True, rule_converters = []\<rparr>"

definition item_view :: view_function where
  "item_view =
     \<lparr>func_doc = Some ''Get an item'',
      func_response_schemas = [(PInt 200, person_schema)],
      func_request_schema = None, func_querystring_schema = None\<rparr>"

definition index_view :: view_function where
  "index_view =
     \<lparr>func_doc = None, func_response_schemas = [], func_request_schema = None,
      func_querystring_schema = None\<rparr>"

definition demo_app :: quart_schema where
  "demo_app =
     \<lparr>app_url_map = [index_rule, item_rule],
      app_view_functions = [(''index'', index_view), (''item'', item_view)],
      schema_title = Some ''demo'', schema_version = ''0.1.0''\<rparr>"

definition item_operation :: pyval where
  "item_operation =
     PDict [(PStr ''parameters'', PList [PDict [(PStr ''name'', PStr ''id''), (PStr ''in'', PStr ''path'')]]),
            (PStr ''responses'',
             PDict [(PInt 200,
                     json_content [(PStr ''title'', PStr ''Person''), (PStr ''type'', PStr ''object'')])]),
            (PStr ''description'', PStr ''''),
            (PStr ''summary'', PStr ''Get an item'')]"

definition demo_doc :: pyval where
  "demo_doc =
     PDict [(PStr ''openapi'', PStr ''3.0.3''),
            (PStr ''info'', PDict [(PStr ''title'', PStr ''demo''), (PStr ''version'', PStr ''0.1.0'')]),
            (PStr ''components'',
             PDict [(PStr ''schemas'',
                     PDict [(PStr ''Pet'', PDict [(PStr ''type'', PStr ''object'')])])]),
            (PStr ''paths'',
             PDict [(PStr ''/item/{id}'', PDict [(PStr ''get'', item_operation)])])]"

section \<open>Properties\<close>

lemmas model_defs =
  model_dump_def dump_backend_def model_load_def load_try_body_def load_pydantic_branch_def
  load_msgspec_branch_def is_pydantic_dataclass_def is_attrs_def is_dataclass_def
  isinstance_def issubclass_def mro_def plain_class_def cannot_load_def caught_by_def
  load_caught_def recognised_by_dump_def backend_conversion_def load_data_def

lemmas demo_defs =
  demo_env_def stub_env_def stub_construct_def instance_of_dict_def PyDetails_def MDetails_def
  DCDetails_def bob_def TypeError_def ValueError_def CallerError_def
  PydanticValidationError_def MsgSpecValidationError_def

subsection \<open>Unrecognised kinds\<close>

lemma caught_TypeError: "caught_by (Raised TypeError a) load_caught"
  by (simp add: caught_by_def load_caught_def issubclass_def mro_def TypeError_def plain_class_def)

lemma model_load_unrecognised:
  "\<not> load_pydantic_branch env c p \<Longrightarrow> \<not> load_msgspec_branch env c p \<Longrightarrow>
   model_load env d c E dc p = Inl (Raised E (Wrapped (cannot_load c)))"
  by (simp add: model_load_def load_try_body_def cannot_load_def caught_TypeError Let_def)

text \<open>
  C1. The claim: for a target type of no recognised kind, \<^verbatim>\<open>model_load\<close> raises a plain
  \<^verbatim>\<open>TypeError\<close>, never an instance of the caller's \<^verbatim>\<open>exception_class\<close>. The code
  raises the \<^verbatim>\<open>TypeError\<close> inside the \<^verbatim>\<open>try\<close> block whose \<^verbatim>\<open>except\<close> clause lists
  \<^verbatim>\<open>TypeError\<close>, so it is caught and wrapped: for the builtin class \<^verbatim>\<open>int\<close> and the
  caller's class \<^verbatim>\<open>ValidationError\<close>, what is raised is
  \<^verbatim>\<open>ValidationError(TypeError("Cannot load int"))\<close>, whose class is not
  \<^verbatim>\<open>TypeError\<close>.
\<close>

theorem model_load_unrecognised_is_wrapped:
  "model_load stub_env (PDict []) (type_of (PInt 0)) CallerError False None
     = Inl (Raised CallerError (Wrapped (Raised TypeError (Msg ''Cannot load int''))))
   \<and> CallerError \<noteq> TypeError"
  by (simp add: model_load_def load_try_body_def load_pydantic_branch_def load_msgspec_branch_def
      is_pydantic_dataclass_def is_attrs_def is_dataclass_def isinstance_def issubclass_def
      mro_def plain_class_def stub_env_def cannot_load_def caught_by_def load_caught_def
      TypeError_def CallerError_def Let_def)

subsection \<open>Opaque values\<close>

text \<open>
  C6. A value that no branch of \<^verbatim>\<open>model_dump\<close> recognises is returned as it is,
  whatever \<^verbatim>\<open>camelize\<close> and \<^verbatim>\<open>kebabize\<close> ask for, and the call does not raise:
  no backend routine and no casing routine runs.
\<close>

theorem model_dump_opaque:
  "\<not> recognised_by_dump env raw preference \<Longrightarrow>
   model_dump env raw by_alias camelize kebabize preference = Inr raw"
proof -
  assume "\<not> recognised_by_dump env raw preference"
  then have "dump_backend env raw by_alias preference = None"
    unfolding recognised_by_dump_def dump_backend_def by auto
  then show ?thesis by (simp add: model_dump_def)
qed

text \<open>
  With pydantic alone installed and the preference pinned to msgspec, a dict is opaque:
  its key stays \<^verbatim>\<open>x_id\<close> under \<^verbatim>\<open>kebabize=True\<close>, where the casing routine would
  have produced \<^verbatim>\<open>x-id\<close>.
\<close>

theorem model_dump_opaque_witness:
  "\<not> recognised_by_dump only_pydantic (PDict [(PStr ''x_id'', PInt 1)]) (Some ''msgspec'')
   \<and> model_dump only_pydantic (PDict [(PStr ''x_id'', PInt 1)]) False False True (Some ''msgspec'')
       = Inr (PDict [(PStr ''x_id'', PInt 1)])
   \<and> humps_kebabize only_pydantic (PDict [(PStr ''x_id'', PInt 1)]) = PDict [(PStr ''x-id'', PInt 1)]"
proof -
  have h: "\<not> recognised_by_dump only_pydantic (PDict [(PStr ''x_id'', PInt 1)]) (Some ''msgspec'')"
    by (simp add: model_defs only_pydantic_def demo_defs)
  have k: "humps_kebabize only_pydantic (PDict [(PStr ''x_id'', PInt 1)]) = PDict [(PStr ''x-id'', PInt 1)]"
    by (simp add: only_pydantic_def demo_env_def)
  show ?thesis using h k model_dump_opaque [OF h, of False False True] by simp
qed

subsection \<open>Error normalisation\<close>

text \<open>
  C3. For a recognised target type, when the backend conversion raises a
  \<^verbatim>\<open>TypeError\<close>, a \<^verbatim>\<open>ValueError\<close>, or a validation error of either library (or an
  instance of a subclass of one of them), \<^verbatim>\<open>model_load\<close> raises one instance of the
  caller's \<^verbatim>\<open>exception_class\<close> built from the original error, which is its only
  argument and the exception being handled when it is raised.
\<close>

theorem model_load_wraps_backend_error:
  assumes "load_pydantic_branch env model_class preference
           \<or> load_msgspec_branch env model_class preference"
    and "backend_conversion env (load_data env decamelize data) model_class preference = Inl error"
    and "caught_by error [''TypeError'', ''MsgSpecValidationError'', ''PydanticValidationError'', ''ValueError'']"
  shows "model_load env data model_class exception_class decamelize preference
           = Inl (Raised exception_class (Wrapped error))"
  using assms
  by (auto simp add: model_load_def load_try_body_def backend_conversion_def load_data_def
      load_caught_def Let_def)

theorem model_load_wraps_backend_error_witness:
  "(load_pydantic_branch demo_env PyDetails None \<or> load_msgspec_branch demo_env PyDetails None)
   \<and> backend_conversion demo_env (load_data demo_env False (PDict [(PStr ''name'', PStr ''bob'')])) PyDetails None
       = Inl (Raised PydanticValidationError (Msg ''fields do not match''))
   \<and> caught_by (Raised PydanticValidationError (Msg ''fields do not match''))
       [''TypeError'', ''MsgSpecValidationError'', ''PydanticValidationError'', ''ValueError'']
   \<and> model_load demo_env (PDict [(PStr ''name'', PStr ''bob'')]) PyDetails CallerError False None
       = Inl (Raised CallerError (Wrapped (Raised PydanticValidationError (Msg ''fields do not match''))))"
proof -
  let ?d = "PDict [(PStr ''name'', PStr ''bob'')]"
  let ?e = "Raised PydanticValidationError (Msg ''fields do not match'')"
  have a: "load_pydantic_branch demo_env PyDetails None \<or> load_msgspec_branch demo_env PyDetails None"
    by (simp add: model_defs demo_defs)
  have b: "backend_conversion demo_env (load_data demo_env False ?d) PyDetails None = Inl ?e"
    by (simp add: model_defs demo_defs)
  have c: "caught_by ?e [''TypeError'', ''MsgSpecValidationError'', ''PydanticValidationError'', ''ValueError'']"
    by (simp add: model_defs demo_defs)
  show ?thesis
    using a b c model_load_wraps_backend_error [OF a b c, of CallerError] by simp
qed

subsection \<open>Round trip\<close>

text \<open>
  C2. The round trip is lost for a list and for a dict. \<^verbatim>\<open>model_dump\<close> recognises
  the value by \<^verbatim>\<open>isinstance(raw, (list, dict))\<close>; \<^verbatim>\<open>model_load\<close> repeats the test
  as \<^verbatim>\<open>isinstance(model_class, (list, dict))\<close>, on the class object, which is
  neither a list nor a dict. So the target \<^verbatim>\<open>type(v)\<close> is unrecognised and the
  caller's error is raised, where the dumped data should have been loaded back into
  \<open>v\<close>.
\<close>

theorem round_trip_list_raises:
  "model_dump demo_env (PList [PInt 1]) False False False None = Inr (PList [PInt 1])
   \<and> round_trip demo_env (PList [PInt 1]) CallerError None
       = Inl (Raised CallerError (Wrapped (Raised TypeError (Msg ''Cannot load list''))))
   \<and> model_dump demo_env (PDict [(PStr ''a'', PInt 1)]) False False False None
       = Inr (PDict [(PStr ''a'', PInt 1)])
   \<and> round_trip demo_env (PDict [(PStr ''a'', PInt 1)]) CallerError None
       = Inl (Raised CallerError (Wrapped (Raised TypeError (Msg ''Cannot load dict''))))"
  by (simp add: round_trip_def model_defs demo_defs)

subsection \<open>Response normalisation\<close>

lemma model_dump_None: "model_dump env PNone a c k p = Inr PNone"
  by (simp add: model_defs)

lemma tuple_not_http: "\<not> isinstance (PTuple xs) [''HTTPException'']"
  by (simp add: model_defs)

lemma int_not_None: "isinstance s [''int''] \<Longrightarrow> s \<noteq> PNone"
  by (auto simp add: model_defs)

lemma not_tuple_elements: "\<not> isinstance v [''tuple''] \<Longrightarrow> tuple_elements v = None"
  by (cases v) (simp_all add: model_defs)

text \<open>
  C4. Whenever the two serialisations succeed, the result has the shape of the input: a
  bare value gives the serialised value alone, a pair gives a pair and a triple gives a
  triple. In a pair the second element is the status exactly when it is an \<^verbatim>\<open>int\<close>
  (then it is returned as it is), and the headers otherwise; in a triple the status is
  returned as it is. An HTTP exception is returned as it is.
\<close>

theorem response_shape_preserved:
  assumes body: "model_dump env b (QUART_SCHEMA_BY_ALIAS cfg) (QUART_SCHEMA_CONVERT_CASING cfg)
                   False (QUART_SCHEMA_CONVERSION_PREFERENCE cfg) = Inr b'"
    and hdrs: "model_dump env h (QUART_SCHEMA_BY_ALIAS cfg) False True
                   (QUART_SCHEMA_CONVERSION_PREFERENCE cfg) = Inr h'"
  shows "(\<not> isinstance b [''tuple''] \<and> \<not> isinstance b [''HTTPException'']
            \<longrightarrow> convert_response_return_value env cfg b = Inr b')
       \<and> (isinstance s [''int'']
            \<longrightarrow> convert_response_return_value env cfg (PTuple [b, s]) = Inr (PTuple [b', s]))
       \<and> (\<not> isinstance h [''int'']
            \<longrightarrow> convert_response_return_value env cfg (PTuple [b, h]) = Inr (PTuple [b', h']))
       \<and> convert_response_return_value env cfg (PTuple [b, s, h]) = Inr (PTuple [b', s, h'])
       \<and> (isinstance r [''HTTPException''] \<longrightarrow> convert_response_return_value env cfg r = Inr r)"
proof -
  have bare: "convert_response_return_value env cfg b = Inr b'"
    if "\<not> isinstance b [''tuple'']" "\<not> isinstance b [''HTTPException'']"
    using that body not_tuple_elements [OF that(1)]
    by (simp add: convert_response_return_value_def unpack_result_def new_result_def model_dump_None)
  have pair_status: "convert_response_return_value env cfg (PTuple [b, s]) = Inr (PTuple [b', s])"
    if "isinstance s [''int'']"
    using that body int_not_None [OF that]
    by (simp add: convert_response_return_value_def unpack_result_def new_result_def
        tuple_not_http model_dump_None)
  have pair_headers: "convert_response_return_value env cfg (PTuple [b, h]) = Inr (PTuple [b', h'])"
    if "\<not> isinstance h [''int'']"
    using that body hdrs
    by (simp add: convert_response_return_value_def unpack_result_def new_result_def tuple_not_http)
  have triple: "convert_response_return_value env cfg (PTuple [b, s, h]) = Inr (PTuple [b', s, h'])"
    using body hdrs
    by (simp add: convert_response_return_value_def unpack_result_def new_result_def tuple_not_http)
  have http: "convert_response_return_value env cfg r = Inr r" if "isinstance r [''HTTPException'']"
    using that by (simp add: convert_response_return_value_def)
  show ?thesis using bare pair_status pair_headers triple http by blast
qed


theorem response_shape_preserved_witness:
  "model_dump demo_env (PObj DCDetails bob) (QUART_SCHEMA_BY_ALIAS camel_config)
       (QUART_SCHEMA_CONVERT_CASING camel_config) False (QUART_SCHEMA_CONVERSION_PREFERENCE camel_config)
     = Inr (PDict [(PStr ''name'', PStr ''bob''), (PStr ''age'', PInt 2)])
   \<and> model_dump demo_env (PDict [(PStr ''x_id'', PStr ''1'')]) (QUART_SCHEMA_BY_ALIAS camel_config)
       False True (QUART_SCHEMA_CONVERSION_PREFERENCE camel_config)
     = Inr (PDict [(PStr ''x-id'', PStr ''1'')])
   \<and> \<not> isinstance (PObj DCDetails bob) [''tuple'']
   \<and> \<not> isinstance (PObj DCDetails bob) [''HTTPException'']
   \<and> isinstance (PInt 201) [''int'']
   \<and> isinstance NotFound [''HTTPException'']
   \<and> convert_response_return_value demo_env camel_config NotFound = Inr NotFound
   \<and> \<not> isinstance (PDict [(PStr ''x_id'', PStr ''1'')]) [''int'']
   \<and> convert_response_return_value demo_env camel_config (PObj DCDetails bob)
     = Inr (PDict [(PStr ''name'', PStr ''bob''), (PStr ''age'', PInt 2)])
   \<and> convert_response_return_value demo_env camel_config (PTuple [PObj DCDetails bob, PInt 201])
     = Inr (PTuple [PDict [(PStr ''name'', PStr ''bob''), (PStr ''age'', PInt 2)], PInt 201])
   \<and> convert_response_return_value demo_env camel_config
        (PTuple [PObj DCDetails bob, PDict [(PStr ''x_id'', PStr ''1'')]])
     = Inr (PTuple [PDict [(PStr ''name'', PStr ''bob''), (PStr ''age'', PInt 2)],
                    PDict [(PStr ''x-id'', PStr ''1'')]])
   \<and> convert_response_return_value demo_env camel_config
        (PTuple [PObj DCDetails bob, PInt 201, PDict [(PStr ''x_id'', PStr ''1'')]])
     = Inr (PTuple [PDict [(PStr ''name'', PStr ''bob''), (PStr ''age'', PInt 2)], PInt 201,
                    PDict [(PStr ''x-id'', PStr ''1'')]])"
proof -
  let ?b = "PObj DCDetails bob" and ?h = "PDict [(PStr ''x_id'', PStr ''1'')]"
  have body: "model_dump demo_env ?b (QUART_SCHEMA_BY_ALIAS camel_config)
       (QUART_SCHEMA_CONVERT_CASING camel_config) False (QUART_SCHEMA_CONVERSION_PREFERENCE camel_config)
     = Inr (PDict [(PStr ''name'', PStr ''bob''), (PStr ''age'', PInt 2)])"
    by (simp add: model_defs demo_defs camel_config_def)
  have hdrs: "model_dump demo_env ?h (QUART_SCHEMA_BY_ALIAS camel_config)
       False True (QUART_SCHEMA_CONVERSION_PREFERENCE camel_config)
     = Inr (PDict [(PStr ''x-id'', PStr ''1'')])"
    by (simp add: model_defs demo_defs camel_config_def)
  have side: "\<not> isinstance ?b [''tuple'']" "\<not> isinstance ?b [''HTTPException'']"
    "isinstance (PInt 201) [''int'']" "\<not> isinstance ?h [''int'']"
    "isinstance NotFound [''HTTPException'']"
    by (simp_all add: model_defs demo_defs NotFound_def)
  show ?thesis
    using body hdrs side response_shape_preserved [OF body hdrs, of "PInt 201" NotFound] by simp
qed




subsection \<open>Header extraction\<close>




lemma lower_char_idem: "lower_char (lower_char c) = lower_char c"
  by (auto simp add: lower_char_def split: option.splits if_splits)















subsection \<open>Splitting the definitions off a schema\<close>

lemma delete_absent: "map_of al k = None \<Longrightarrow> AList.delete k al = al"
  by (induction al) (auto split: if_splits)

lemma delete_filter: "AList.delete k al = filter (\<lambda>kv. fst kv \<noteq> k) al"
  by (induction al) auto

lemma split_definitions_in_eq:
  "schema < length st \<Longrightarrow>
   split_definitions_in st schema
     = ((fst (split_definitions (st ! schema)), length st),
        st @ [snd (split_definitions (st ! schema))])"
  by (simp add: split_definitions_in_def split_definitions_def dict_copy_def dict_pop_def
      nth_append split: option.splits)

text \<open>
  C9. For a schema dict at address \<open>schema\<close>, \<^verbatim>\<open>_split_definitions\<close> returns the
  value of the \<^verbatim>\<open>definitions\<close> entry (an empty dict when there is none) and the
  address of a new dict holding the other entries of the schema, unchanged and in their
  order; the schema itself, like every other dict of the store, is left as it was.
\<close>

theorem split_definitions_frame:
  assumes "schema < length st"
    and "split_definitions_in st schema = ((definitions, new_schema), st')"
  shows "definitions = (case map_of (st ! schema) (PStr ''definitions'') of
                          Some v \<Rightarrow> v | None \<Rightarrow> PDict [])
       \<and> st' ! new_schema = filter (\<lambda>kv. fst kv \<noteq> PStr ''definitions'') (st ! schema)
       \<and> map_of (st' ! new_schema) = (map_of (st ! schema))(PStr ''definitions'' := None)
       \<and> new_schema \<noteq> schema
       \<and> length st' = Suc (length st)
       \<and> (\<forall>a < length st. st' ! a = st ! a)"
proof -
  have eq: "definitions = fst (split_definitions (st ! schema))" "new_schema = length st"
    "st' = st @ [snd (split_definitions (st ! schema))]"
    using assms by (simp_all add: split_definitions_in_eq)
  have del: "snd (split_definitions (st ! schema)) = AList.delete (PStr ''definitions'') (st ! schema)"
    by (simp add: split_definitions_def delete_absent split: option.splits)
  have flt: "AList.delete (PStr ''definitions'') (st ! schema)
               = filter (\<lambda>kv. fst kv \<noteq> PStr ''definitions'') (st ! schema)"
    by (rule delete_filter)
  have m: "map_of (filter (\<lambda>kv. fst kv \<noteq> PStr ''definitions'') (st ! schema))
             = (map_of (st ! schema))(PStr ''definitions'' := None)"
    using delete_conv' [of "PStr ''definitions''" "st ! schema"] flt by simp
  have d: "definitions = (case map_of (st ! schema) (PStr ''definitions'') of
                          Some v \<Rightarrow> v | None \<Rightarrow> PDict [])"
    using eq(1) by (simp add: split_definitions_def split: option.splits)
  have n: "st' ! new_schema = filter (\<lambda>kv. fst kv \<noteq> PStr ''definitions'') (st ! schema)"
    using eq del flt by simp
  have f: "\<forall>a < length st. st' ! a = st ! a"
    using eq(3) by (simp add: nth_append)
  show ?thesis
    using assms(1) d n m f eq(2,3) by simp
qed

theorem split_definitions_frame_witness:
  "(0::nat) < length [person_schema]
   \<and> split_definitions_in [person_schema] 0
       = ((PDict [(PStr ''Pet'', PDict [(PStr ''type'', PStr ''object'')])], 1),
          [person_schema, [(PStr ''title'', PStr ''Person''), (PStr ''type'', PStr ''object'')]])
   \<and> [person_schema, [(PStr ''title'', PStr ''Person''), (PStr ''type'', PStr ''object'')]] ! 0 = person_schema"
proof -
  let ?st' = "[person_schema, [(PStr ''title'', PStr ''Person''), (PStr ''type'', PStr ''object'')]]"
  have a: "(0::nat) < length [person_schema]" by simp
  have b: "split_definitions_in [person_schema] 0
       = ((PDict [(PStr ''Pet'', PDict [(PStr ''type'', PStr ''object'')])], 1), ?st')"
    by (simp add: split_definitions_in_def dict_copy_def dict_pop_def person_schema_def)
  have c: "\<forall>a < length [person_schema]. ?st' ! a = [person_schema] ! a"
    using split_definitions_frame [OF a b] by blast
  show ?thesis using a b c by simp
qed

subsection \<open>Sending a model over the websocket\<close>

text \<open>
  C10. \<^verbatim>\<open>send_as\<close> raises \<^verbatim>\<open>SchemaValidationError\<close> for every value that is not a
  dict and whose runtime type is not exactly \<^verbatim>\<open>model_class\<close>; nothing is sent. An
  instance of a strict subclass of \<^verbatim>\<open>model_class\<close> is such a value.
\<close>

theorem send_as_rejects:
  "\<not> isinstance val [''dict''] \<Longrightarrow> type_of val \<noteq> model_class \<Longrightarrow>
   send_as env self val model_class = Inl (Raised SchemaValidationError NoArgs)"
  by (simp add: send_as_def send_as_model_value_def)

theorem send_as_rejects_witness:
  "\<not> isinstance (PObj VIPDetails bob) [''dict'']
   \<and> type_of (PObj VIPDetails bob) \<noteq> DCDetails
   \<and> issubclass (type_of (PObj VIPDetails bob)) (cls_name DCDetails)
   \<and> send_as demo_env \<lparr>sent = []\<rparr> (PObj VIPDetails bob) DCDetails
       = Inl (Raised SchemaValidationError NoArgs)
   \<and> send_as demo_env \<lparr>sent = []\<rparr> (PObj DCDetails bob) DCDetails
       = Inr \<lparr>sent = [PDict [(PStr ''name'', PStr ''bob''), (PStr ''age'', PInt 2)]]\<rparr>"
proof -
  have a: "\<not> isinstance (PObj VIPDetails bob) [''dict'']"
    by (simp add: model_defs VIPDetails_def)
  have b: "type_of (PObj VIPDetails bob) \<noteq> DCDetails"
    by (simp add: VIPDetails_def DCDetails_def plain_class_def)
  have c: "issubclass (type_of (PObj VIPDetails bob)) (cls_name DCDetails)"
    by (simp add: model_defs VIPDetails_def DCDetails_def)
  have d: "send_as demo_env \<lparr>sent = []\<rparr> (PObj DCDetails bob) DCDetails
       = Inr \<lparr>sent = [PDict [(PStr ''name'', PStr ''bob''), (PStr ''age'', PInt 2)]]\<rparr>"
    by (simp add: send_as_def send_as_model_value_def model_defs demo_defs)
  show ?thesis
    using a b c d send_as_rejects [OF a b, of demo_env "\<lparr>sent = []\<rparr>"] by simp
qed

subsection \<open>The methods of a route in the OpenAPI document\<close>

lemma attach_methods_lookup:
  "map_of (attach_methods r po ms mm) k =
     (if \<exists>m \<in> set ms. \<not> skipped r m \<and> str_lower m = k then Some po else map_of mm k)"
  by (induction ms arbitrary: mm) (auto simp add: update_conv')

lemma method_map_at_update:
  "method_map_at (AList.update path mm ps) p = (if p = path then mm else method_map_at ps p)"
  by (simp add: method_map_at_def update_conv')

lemma process_rule_cases:
  assumes "process_rule self r (ps, sc) = Inr (ps', sc')"
  obtains (skip) "\<not> documented self r" "ps' = ps"
  | (add) func po where
      "map_of (app_view_functions self) (rule_endpoint r) = Some func"
      "\<not> undocumented func"
      "build_path_object func r sc = Inr (po, sc')"
      "ps' = AList.update (sub_PATH_RE (rule_rule r))
               (attach_methods r po (rule_methods r) (method_map_at ps (sub_PATH_RE (rule_rule r)))) ps"
proof (cases "map_of (app_view_functions self) (rule_endpoint r)")
  case None
  with assms show ?thesis by (simp add: process_rule_def)
next
  case (Some func)
  show ?thesis
  proof (cases "undocumented func")
    case True
    with assms Some have "ps' = ps" "\<not> documented self r"
      by (simp_all add: process_rule_def documented_def)
    then show ?thesis using skip by simp
  next
    case False
    show ?thesis
    proof (cases "build_path_object func r sc")
      case (Inl e)
      with assms Some False show ?thesis by (simp add: process_rule_def)
    next
      case (Inr res)
      obtain po sc1 where res: "res = (po, sc1)" by (cases res)
      from assms Some False Inr res have
        "sc1 = sc'"
        "ps' = AList.update (sub_PATH_RE (rule_rule r))
               (attach_methods r po (rule_methods r) (method_map_at ps (sub_PATH_RE (rule_rule r)))) ps"
        by (simp_all add: process_rule_def Let_def)
      with Some False Inr res show ?thesis using add by simp
    qed
  qed
qed

lemma attaches_iff:
  "attaches self r p k \<longleftrightarrow>
     documented self r \<and> sub_PATH_RE (rule_rule r) = p
     \<and> (\<exists>m \<in> set (rule_methods r). \<not> skipped r m \<and> str_lower m = k)"
  by (simp add: attaches_def skipped_def list_ex_iff)

lemma process_rule_lookup:
  assumes "process_rule self r (ps, sc) = Inr (ps', sc')"
  shows "map_of (method_map_at ps' p) k = None \<longleftrightarrow>
           map_of (method_map_at ps p) k = None \<and> \<not> attaches self r p k"
    and "map_of (method_map_at ps' p) k = Some op \<Longrightarrow>
           map_of (method_map_at ps p) k = Some op \<or> (attaches self r p k \<and> operation_of self r op)"
proof -
  show "map_of (method_map_at ps' p) k = None \<longleftrightarrow>
           map_of (method_map_at ps p) k = None \<and> \<not> attaches self r p k"
    using assms
  proof (cases rule: process_rule_cases)
    case skip
    then show ?thesis by (simp add: attaches_iff)
  next
    case (add func po)
    have "documented self r" using add(1,2) by (simp add: documented_def)
    then show ?thesis
      unfolding add(4) method_map_at_update attaches_iff
      by (simp add: attach_methods_lookup)
  qed
  show "map_of (method_map_at ps p) k = Some op \<or> (attaches self r p k \<and> operation_of self r op)"
    if "map_of (method_map_at ps' p) k = Some op"
    using assms
  proof (cases rule: process_rule_cases)
    case skip
    then show ?thesis using that by simp
  next
    case (add func po)
    have d: "documented self r" using add(1,2) by (simp add: documented_def)
    have o: "operation_of self r po" using add(1,3) by (auto simp add: operation_of_def)
    show ?thesis
      using that d o unfolding add(4) method_map_at_update attaches_iff
      by (auto simp add: attach_methods_lookup split: if_splits)
  qed
qed


lemma process_rules_lookup:
  assumes "process_rules self rs (ps, sc) = Inr (ps', sc')"
  shows "(map_of (method_map_at ps' p) k = None \<longleftrightarrow>
           map_of (method_map_at ps p) k = None \<and> (\<forall>r \<in> set rs. \<not> attaches self r p k))
       \<and> (map_of (method_map_at ps' p) k = Some op \<longrightarrow>
           map_of (method_map_at ps p) k = Some op
           \<or> (\<exists>r \<in> set rs. attaches self r p k \<and> operation_of self r op))"
  using assms
proof (induction rs arbitrary: ps sc)
  case Nil
  then show ?case by simp
next
  case (Cons r rs)
  from Cons.prems obtain ps1 sc1 where
    step: "process_rule self r (ps, sc) = Inr (ps1, sc1)"
    and rest: "process_rules self rs (ps1, sc1) = Inr (ps', sc')"
    by (cases "process_rule self r (ps, sc)") auto
  note ih = Cons.IH [OF rest]
  note one = process_rule_lookup [OF step, of p k]
  show ?case
  proof (intro conjI impI)
    show "map_of (method_map_at ps' p) k = None \<longleftrightarrow>
           map_of (method_map_at ps p) k = None \<and> (\<forall>r \<in> set (r # rs). \<not> attaches self r p k)"
      using ih [THEN conjunct1] one(1) by simp
    assume "map_of (method_map_at ps' p) k = Some op"
    with ih have "map_of (method_map_at ps1 p) k = Some op
           \<or> (\<exists>r \<in> set rs. attaches self r p k \<and> operation_of self r op)"
      by blast
    then show "map_of (method_map_at ps p) k = Some op
           \<or> (\<exists>r \<in> set (r # rs). attaches self r p k \<and> operation_of self r op)"
      using one(2) by fastforce
  qed
qed

lemma map_of_PStr_keys:
  "map_of (map (\<lambda>p. (PStr (fst p), f (snd p))) al) (PStr k) = map_option f (map_of al k)"
  by (induction al) auto

lemma map_of_PStr_id: "map_of (map (map_prod PStr id) mm) (PStr k) = map_of mm k"
  by (induction mm) auto

lemma operation_at_paths:
  "operation_at
     (PDict [(PStr ''openapi'', v), (PStr ''info'', i), (PStr ''components'', c),
             (PStr ''paths'', paths_value ps)]) p k
   = map_of (method_map_at ps p) k"
proof -
  have top: "map_of [(PStr ''openapi'', v), (PStr ''info'', i), (PStr ''components'', c),
                     (PStr ''paths'', paths_value ps)] (PStr ''paths'') = Some (paths_value ps)"
    by simp
  have a: "map_of (map (\<lambda>p. (PStr (fst p), PDict (map (map_prod PStr id) (snd p)))) ps) (PStr p)
        = map_option (\<lambda>mm. PDict (map (map_prod PStr id) mm)) (map_of ps p)"
    by (rule map_of_PStr_keys)
  have "operation_at
     (PDict [(PStr ''openapi'', v), (PStr ''info'', i), (PStr ''components'', c),
             (PStr ''paths'', paths_value ps)]) p k
     = (case paths_value ps of
          PDict ps' \<Rightarrow> (case map_of ps' (PStr p) of
                          Some (PDict mm) \<Rightarrow> map_of mm (PStr k)
                        | _ \<Rightarrow> None)
        | _ \<Rightarrow> None)"
    unfolding operation_at_def by (simp only: pyval.case top option.case)
  also have "\<dots> = (case map_option (\<lambda>mm. PDict (map (map_prod PStr id) mm)) (map_of ps p) of
                      Some (PDict mm) \<Rightarrow> map_of mm (PStr k)
                    | _ \<Rightarrow> None)"
    unfolding paths_value_def by (simp only: pyval.case a)
  also have "\<dots> = map_of (method_map_at ps p) k"
    by (cases "map_of ps p") (simp_all add: method_map_at_def map_of_PStr_id)
  finally show ?thesis .
qed

text \<open>
  C8. In the document that \<^verbatim>\<open>openapi\<close> assembles, a path has an operation under a
  key exactly when some documented rule with that path accepts a method whose
  lower-cased name is the key, the method being neither \<^verbatim>\<open>HEAD\<close> nor an
  \<^verbatim>\<open>OPTIONS\<close> that the router provides by itself; and the operation stored there is
  the operation object built for such a rule.
\<close>

theorem openapi_methods:
  assumes "openapi self = Inr doc"
  shows "(operation_at doc p k \<noteq> None \<longleftrightarrow> (\<exists>r \<in> set (app_url_map self). attaches self r p k))
       \<and> (\<forall>op. operation_at doc p k = Some op \<longrightarrow>
            (\<exists>r \<in> set (app_url_map self). attaches self r p k \<and> operation_of self r op))"
proof -
  obtain ps sc where run: "process_rules self (app_url_map self) ([], []) = Inr (ps, sc)"
    using assms unfolding openapi_def
    by (cases "process_rules self (app_url_map self) ([], [])") auto
  have doc: "doc = PDict
                [(PStr ''openapi'', PStr ''3.0.3''),
                 (PStr ''info'',
                  PDict [(PStr ''title'', (case schema_title self of None \<Rightarrow> PNone | Some t \<Rightarrow> PStr t)),
                         (PStr ''version'', PStr (schema_version self))]),
                 (PStr ''components'', PDict [(PStr ''schemas'', PDict sc)]),
                 (PStr ''paths'', paths_value ps)]"
    using assms run unfolding openapi_def by simp
  have at: "operation_at doc p k = map_of (method_map_at ps p) k"
    unfolding doc by (rule operation_at_paths)
  have empty: "map_of (method_map_at [] p) k = None"
    by (simp add: method_map_at_def)
  have keys: "operation_at doc p k \<noteq> None \<longleftrightarrow> (\<exists>r \<in> set (app_url_map self). attaches self r p k)"
    using process_rules_lookup [OF run, of p k, THEN conjunct1] empty at by simp
  have ops: "\<exists>r \<in> set (app_url_map self). attaches self r p k \<and> operation_of self r op"
    if "operation_at doc p k = Some op" for op
    using process_rules_lookup [OF run, of p k op, THEN conjunct2] empty at that by simp
  show ?thesis using keys ops by blast
qed

lemma sub_item: "sub_PATH_RE ''/item/<int:id>'' = ''/item/{id}''"
  by (simp add: match_PATH_RE_def capture_name_def)

lemma split_item: "splitlines ''Get an item'' = [''Get an item'']"
  by (simp add: splitlines_def line_boundary_def)

lemma demo_openapi: "openapi demo_app = Inr demo_doc"
  by (simp add: openapi_def demo_app_def index_rule_def item_rule_def index_view_def item_view_def
      process_rule_def undocumented_def build_path_object_def doc_entries_def split_item
      add_request_def add_query_def split_definitions_def person_schema_def dict_update_def
      match_PATH_RE_def capture_name_def method_map_at_def skipped_def str_lower_def lower_char_def paths_value_def
      path_parameter_def demo_doc_def item_operation_def Let_def)


lemma demo_attaches:
  "attaches demo_app item_rule ''/item/{id}'' ''get''"
  "\<not> attaches demo_app item_rule ''/item/{id}'' ''head''"
  "\<not> attaches demo_app item_rule ''/item/{id}'' ''options''"
  "\<not> attaches demo_app index_rule p k"
  by (simp_all add: attaches_def documented_def undocumented_def demo_app_def item_rule_def
      index_rule_def item_view_def index_view_def match_PATH_RE_def capture_name_def
      str_lower_def lower_char_def)

theorem openapi_methods_witness:
  "openapi demo_app = Inr demo_doc
   \<and> (\<exists>r \<in> set (app_url_map demo_app). attaches demo_app r ''/item/{id}'' ''get'')
   \<and> operation_at demo_doc ''/item/{id}'' ''get'' = Some item_operation
   \<and> (\<exists>r \<in> set (app_url_map demo_app).
         attaches demo_app r ''/item/{id}'' ''get'' \<and> operation_of demo_app r item_operation)
   \<and> operation_at demo_doc ''/item/{id}'' ''head'' = None
   \<and> operation_at demo_doc ''/item/{id}'' ''options'' = None"
proof -
  note get = openapi_methods [OF demo_openapi, of "''/item/{id}''" "''get''"]
  note head = openapi_methods [OF demo_openapi, of "''/item/{id}''" "''head''"]
  note options = openapi_methods [OF demo_openapi, of "''/item/{id}''" "''options''"]
  have rules: "set (app_url_map demo_app) = {index_rule, item_rule}"
    by (simp add: demo_app_def)
  have a: "\<exists>r \<in> set (app_url_map demo_app). attaches demo_app r ''/item/{id}'' ''get''"
    using demo_attaches(1) by (simp add: rules)
  have b: "operation_at demo_doc ''/item/{id}'' ''get'' = Some item_operation"
    by (simp add: operation_at_def demo_doc_def)
  have c: "\<exists>r \<in> set (app_url_map demo_app).
         attaches demo_app r ''/item/{id}'' ''get'' \<and> operation_of demo_app r item_operation"
    using get [THEN conjunct2] b by blast
  have d: "operation_at demo_doc ''/item/{id}'' ''head'' = None"
    using head [THEN conjunct1] demo_attaches(2,4) by (simp add: rules)
  have e: "operation_at demo_doc ''/item/{id}'' ''options'' = None"
    using options [THEN conjunct1] demo_attaches(3,4) by (simp add: rules)
  show ?thesis using demo_openapi a b c d e by blast
qed

end
